theory Spec2Isabelle
  imports Main "HOL-Library.Word"
begin

unbundle bit_operations_syntax

section \<open>Data model\<close>

text \<open>
  Values held by the settings store. The bootstrap register holds a string or Python's
  \<^verbatim>\<open>None\<close>; the other fields of the snapshot hold values of other types too.
\<close>

datatype pyval = PNone | PStr string | PInt int | PBool bool

text \<open>
  The only exception the modelled functions can raise themselves: calling
  \<^verbatim>\<open>.split\<close> on a register value that is neither a string nor \<^verbatim>\<open>None\<close>.
\<close>

datatype error = AttributeError

text \<open>The dataclass \<^verbatim>\<open>BootstrapState\<close>.\<close>

record BootstrapState =
  bootstrap :: bool
  state :: "string option"
  task_id :: "string option"

text \<open>The settings snapshot: a dictionary from field names to values.\<close>

type_synonym settings = "string \<rightharpoonup> pyval"

section \<open>The shared state register\<close>

text \<open>
  Modelled from the spec: the settings store (Dynaconf with its Redis loader) is an
  external library, so its four operations follow the register contract of the
  specification (section 6): a snapshot read, a snapshot write, and a fresh read of one
  field that bypasses any cache. The store is one dictionary; a field that is missing and
  a field that holds \<^verbatim>\<open>None\<close> both read as \<^verbatim>\<open>None\<close>.

  The dictionary holds the values as a read returns them, and a write keeps a value as it
  was handed over. That is what the store does with the two values written here,
  \<^verbatim>\<open>pre-<task_id>\<close> and \<^verbatim>\<open>None\<close>. The library keeps text and parses it again on
  every read, so another field whose string reads as a number comes back as that number
  after a write; the model does not follow this, and nothing below is stated about the
  other fields of the store after a write. What the writers do to the other fields is
  stated on the dictionary they hand to the write.
\<close>

definition as_dict :: "settings \<Rightarrow> settings" where
  "as_dict settings_repository = settings_repository"

definition redis_loader_write :: "settings \<Rightarrow> settings \<Rightarrow> settings" where
  "redis_loader_write settings_repository settings_data = settings_repository ++ settings_data"

definition reload :: "settings \<Rightarrow> settings" where
  "reload settings_repository = settings_repository"

definition get_fresh :: "settings \<Rightarrow> string \<Rightarrow> pyval" where
  "get_fresh settings_repository key =
     (case settings_repository key of None \<Rightarrow> PNone | Some v \<Rightarrow> v)"

section \<open>String splitting\<close>

text \<open>
  Python's \<^verbatim>\<open>str.split(sep)\<close> for a one-character separator: the string is cut at
  every occurrence of the separator, empty pieces are kept, and the empty string splits
  into one empty piece. The result is never empty, so the last case below is never taken.
\<close>

fun split_py :: "char \<Rightarrow> string \<Rightarrow> string list" where
  "split_py sep [] = [[]]"
| "split_py sep (c # cs) =
     (if c = sep then [] # split_py sep cs
      else (case split_py sep cs of
              w # ws \<Rightarrow> (c # w) # ws
            | [] \<Rightarrow> [[c]]))"

section \<open>The bootstrap coordinator\<close>

text \<open>
  \<^verbatim>\<open>pre_lock_bootstrap(task_id)\<close>: read the snapshot, set \<^verbatim>\<open>BOOTSTRAP\<close> to
  \<^verbatim>\<open>f"pre-{task_id}"\<close>, write the snapshot back. The function is in two parts, so
  that the argument of the write can be named: \<open>pre_lock_bootstrap_settings_data\<close> is
  the value of the variable \<^verbatim>\<open>settings_data\<close> when \<^verbatim>\<open>redis_loader.write\<close> is called
  (the first two statements), and \<open>pre_lock_bootstrap\<close> is the call of the write with
  it (the last statement). The new store is returned.
\<close>

definition pre_lock_bootstrap_settings_data :: "string \<Rightarrow> settings \<Rightarrow> settings" where
  "pre_lock_bootstrap_settings_data tid settings_repository =
     (let settings_data = as_dict settings_repository;
          settings_data = settings_data(''BOOTSTRAP'' \<mapsto> PStr (''pre-'' @ tid))
      in settings_data)"

definition pre_lock_bootstrap :: "string \<Rightarrow> settings \<Rightarrow> settings" where
  "pre_lock_bootstrap tid settings_repository =
     redis_loader_write settings_repository
       (pre_lock_bootstrap_settings_data tid settings_repository)"

text \<open>\<^verbatim>\<open>release_bootstrap_lock()\<close>: the same with \<^verbatim>\<open>None\<close>, in the same two parts.\<close>

definition release_bootstrap_lock_settings_data :: "settings \<Rightarrow> settings" where
  "release_bootstrap_lock_settings_data settings_repository =
     (let settings_data = as_dict settings_repository;
          settings_data = settings_data(''BOOTSTRAP'' \<mapsto> PNone)
      in settings_data)"

definition release_bootstrap_lock :: "settings \<Rightarrow> settings" where
  "release_bootstrap_lock settings_repository =
     redis_loader_write settings_repository
       (release_bootstrap_lock_settings_data settings_repository)"

text \<open>
  \<^verbatim>\<open>bootstrap_state()\<close>. The result is \<open>Inl\<close> of the exception raised, or \<open>Inr\<close> of the
  returned value: \<open>Some\<close> of a \<^verbatim>\<open>BootstrapState\<close>, or \<open>None\<close> for Python's
  \<^verbatim>\<open>None\<close>, which the function returns when it runs past its last \<^verbatim>\<open>elif\<close>.
\<close>

definition bootstrap_state :: "settings \<Rightarrow> error + BootstrapState option" where
  "bootstrap_state settings_repository =
     (let reg = get_fresh (reload settings_repository) ''BOOTSTRAP'';
          bootstrap_state = \<lparr>bootstrap = False, state = None, task_id = None\<rparr>
      in case reg of
           PNone \<Rightarrow> Inr (Some bootstrap_state)
         | PStr b \<Rightarrow>
             if length (split_py CHR ''-'' b) = 1 then
               Inr (Some (bootstrap_state
                 \<lparr>bootstrap := True, state := Some ''finished'', task_id := Some b\<rparr>))
             else if length (split_py CHR ''-'' b) = 2 then
               Inr (Some (bootstrap_state
                 \<lparr>bootstrap := False,
                  state := Some (split_py CHR ''-'' b ! 0),
                  task_id := Some (split_py CHR ''-'' b ! 1)\<rparr>))
             else Inr None
         | _ \<Rightarrow> Inl AttributeError)"

section \<open>The task identifier generator\<close>

text \<open>
  \<^verbatim>\<open>uuid4().hex\<close>. The argument is the 16 random bytes as a 128-bit number;
  \<open>uuid4\<close> sets the variant and version bits as the standard library does, and
  \<open>format_032x\<close> is \<^verbatim>\<open>'%032x' % n\<close>.
\<close>

definition uuid4 :: "128 word \<Rightarrow> 128 word" where
  "uuid4 r =
     (let i = r AND NOT (push_bit 48 0xc000);
          i = i OR push_bit 48 0x8000;
          i = i AND NOT (push_bit 64 0xf000);
          i = i OR push_bit 76 4
      in i)"

definition hex_digit :: "nat \<Rightarrow> char" where
  "hex_digit d = ''0123456789abcdef'' ! d"

fun hex_nat :: "nat \<Rightarrow> string" where
  "hex_nat n = (if n < 16 then [hex_digit n] else hex_nat (n div 16) @ [hex_digit (n mod 16)])"

definition format_032x :: "nat \<Rightarrow> string" where
  "format_032x n = (let d = hex_nat n in replicate (32 - length d) CHR ''0'' @ d)"

definition get_task_id :: "128 word \<Rightarrow> string" where
  "get_task_id r = format_032x (unat (uuid4 r))"

declare hex_nat.simps [simp del]

section \<open>The status query\<close>

datatype TaskStatus = PENDING | RECEIVED | PRE_RUN | RUNNING | FAILURE | SUCCESS

record Response =
  task_state :: TaskStatus
  result :: "string option"

record GetParameters =
  query_task_id :: "string option"

text \<open>
  Modelled from the spec: the module \<^verbatim>\<open>tasks\<close> (\<^verbatim>\<open>tasks.get\<close>, \<^verbatim>\<open>tasks.Response\<close>,
  \<^verbatim>\<open>tasks.GetParameters\<close>) is not among the sources; only the route handler that
  calls it is. After section 4.3 of the specification: with no id the status is
  \<open>PENDING\<close> and there is no auxiliary result; with an id the execution engine's
  status store is queried and its native state is mapped onto the six values. The store
  \<open>queryStatus\<close> and the mapping \<open>translate\<close> belong to the engine and are parameters.
  The field \<^verbatim>\<open>task_id\<close> of \<^verbatim>\<open>GetParameters\<close> is named \<open>query_task_id\<close> here, since
  \<open>task_id\<close> is already the field of \<open>BootstrapState\<close>.
\<close>

definition tasks_get ::
  "(string \<Rightarrow> 'n \<times> string option) \<Rightarrow> ('n \<Rightarrow> TaskStatus) \<Rightarrow> string option \<Rightarrow> error + Response"
where
  "tasks_get queryStatus translate tid =
     (case tid of
        None \<Rightarrow> Inr \<lparr>task_state = PENDING, result = None\<rparr>
      | Some t \<Rightarrow>
          (case queryStatus t of
             (native, res) \<Rightarrow> Inr \<lparr>task_state = translate native, result = res\<rparr>))"

text \<open>The route handler \<^verbatim>\<open>get\<close> of \<^verbatim>\<open>api/tasks.py\<close>: it passes the parameter on.\<close>

definition get ::
  "(string \<Rightarrow> 'n \<times> string option) \<Rightarrow> ('n \<Rightarrow> TaskStatus) \<Rightarrow> GetParameters \<Rightarrow> error + Response"
where
  "get queryStatus translate params = tasks_get queryStatus translate (query_task_id params)"

section \<open>The encoding of the specification\<close>

text \<open>
  The logical register value of the specification (sections 3 and 9) with its three
  encoding shapes, written after the specification's words and compared below with what
  \<open>bootstrap_state\<close> decodes. An encoding is valid when no component contains the
  delimiter.
\<close>

datatype BootstrapRecord = Absent | InProgress string string | Finished string

fun spec_encode :: "BootstrapRecord \<Rightarrow> pyval" where
  "spec_encode Absent = PNone"
| "spec_encode (InProgress phase tid) = PStr (phase @ ''-'' @ tid)"
| "spec_encode (Finished tid) = PStr tid"

fun spec_valid :: "BootstrapRecord \<Rightarrow> bool" where
  "spec_valid Absent = True"
| "spec_valid (InProgress phase tid) = (CHR ''-'' \<notin> set phase \<and> CHR ''-'' \<notin> set tid)"
| "spec_valid (Finished tid) = (CHR ''-'' \<notin> set tid)"

fun spec_view :: "BootstrapRecord \<Rightarrow> BootstrapState" where
  "spec_view Absent = \<lparr>bootstrap = False, state = None, task_id = None\<rparr>"
| "spec_view (InProgress phase tid) =
     \<lparr>bootstrap = False, state = Some phase, task_id = Some tid\<rparr>"
| "spec_view (Finished tid) =
     \<lparr>bootstrap = True, state = Some ''finished'', task_id = Some tid\<rparr>"

section \<open>Properties of splitting\<close>

lemma split_py_not_Nil: "split_py sep s \<noteq> []"
  by (induction s) (auto split: list.splits)

lemma split_py_no_sep: "sep \<notin> set s \<Longrightarrow> split_py sep s = [s]"
  by (induction s) auto

lemma split_py_append: "sep \<notin> set p \<Longrightarrow> split_py sep (p @ sep # t) = p # split_py sep t"
  by (induction p) auto

lemma length_split_py: "length (split_py sep s) = Suc (length (filter (\<lambda>c. c = sep) s))"
  by (induction s) (auto split: list.splits simp: split_py_not_Nil)

lemma split_py_one: "length (split_py sep s) = 1 \<longleftrightarrow> sep \<notin> set s"
proof -
  have "filter (\<lambda>c. c = sep) s = [] \<longleftrightarrow> sep \<notin> set s"
    by (induction s) auto
  then show ?thesis by (simp add: length_split_py)
qed

lemma split_py_single: "split_py sep s = [t] \<Longrightarrow> s = t \<and> sep \<notin> set t"
proof -
  assume a: "split_py sep s = [t]"
  then have "length (split_py sep s) = 1" by simp
  then have n: "sep \<notin> set s" using split_py_one[of sep s] by blast
  then have "split_py sep s = [s]" by (rule split_py_no_sep)
  with a n show ?thesis by simp
qed

lemma split_py_pair:
  "split_py sep s = [p, t] \<Longrightarrow> s = p @ sep # t \<and> sep \<notin> set p \<and> sep \<notin> set t"
proof (induction s arbitrary: p)
  case Nil
  then show ?case by simp
next
  case (Cons c cs)
  show ?case
  proof (cases "c = sep")
    case True
    with Cons.prems have p: "p = []" and "split_py sep cs = [t]" by auto
    from this(2) have "cs = t \<and> sep \<notin> set t" by (rule split_py_single)
    with p True show ?thesis by simp
  next
    case False
    with Cons.prems obtain w where "split_py sep cs = [w, t]" "p = c # w"
      by (auto split: list.splits)
    with Cons.IH[of w] False show ?thesis by auto
  qed
qed

lemma split_py_two: "sep \<notin> set p \<Longrightarrow> sep \<notin> set t \<Longrightarrow> split_py sep (p @ sep # t) = [p, t]"
  by (simp add: split_py_append split_py_no_sep)

section \<open>Decoding the three shapes\<close>

lemma decode_absent:
  "get_fresh s ''BOOTSTRAP'' = PNone \<Longrightarrow>
   bootstrap_state s = Inr (Some \<lparr>bootstrap = False, state = None, task_id = None\<rparr>)"
  by (simp add: bootstrap_state_def reload_def)

lemma decode_one:
  "get_fresh s ''BOOTSTRAP'' = PStr b \<Longrightarrow> length (split_py CHR ''-'' b) = 1 \<Longrightarrow>
   bootstrap_state s =
     Inr (Some \<lparr>bootstrap = True, state = Some ''finished'', task_id = Some b\<rparr>)"
  by (simp add: bootstrap_state_def reload_def)

lemma decode_two:
  "get_fresh s ''BOOTSTRAP'' = PStr b \<Longrightarrow> split_py CHR ''-'' b = [p, t] \<Longrightarrow>
   bootstrap_state s = Inr (Some \<lparr>bootstrap = False, state = Some p, task_id = Some t\<rparr>)"
  by (simp add: bootstrap_state_def reload_def)

lemma decode_more:
  "get_fresh s ''BOOTSTRAP'' = PStr b \<Longrightarrow> 2 < length (split_py CHR ''-'' b) \<Longrightarrow>
   bootstrap_state s = Inr None"
  by (simp add: bootstrap_state_def reload_def)

lemma map_add_same: "m ++ m = m"
  by (rule ext) (simp add: map_add_def split: option.splits)

lemma pre_lock_bootstrap_eq:
  "pre_lock_bootstrap t s = s(''BOOTSTRAP'' \<mapsto> PStr (''pre-'' @ t))"
  by (simp add: pre_lock_bootstrap_def pre_lock_bootstrap_settings_data_def as_dict_def
      redis_loader_write_def Let_def map_add_same)

lemma release_bootstrap_lock_eq: "release_bootstrap_lock s = s(''BOOTSTRAP'' \<mapsto> PNone)"
  by (simp add: release_bootstrap_lock_def release_bootstrap_lock_settings_data_def as_dict_def
      redis_loader_write_def Let_def map_add_same)

lemma get_fresh_upd: "get_fresh (s(k \<mapsto> v)) k = v"
  by (simp add: get_fresh_def)

section \<open>Properties of the hexadecimal rendering\<close>

lemma hex_digit_in: "d < 16 \<Longrightarrow> hex_digit d \<in> set ''0123456789abcdef''"
proof -
  assume "d < 16"
  then have "d < length ''0123456789abcdef''" by simp
  then show ?thesis unfolding hex_digit_def by (rule nth_mem)
qed

lemma set_hex_nat: "set (hex_nat n) \<subseteq> set ''0123456789abcdef''"
proof (induction n rule: hex_nat.induct)
  case (1 n)
  show ?case
  proof (cases "n < 16")
    case True
    then show ?thesis using hex_digit_in[of n] by (subst hex_nat.simps) simp
  next
    case False
    have "n mod 16 < 16" by simp
    then have "hex_digit (n mod 16) \<in> set ''0123456789abcdef''" by (rule hex_digit_in)
    with 1[OF False] False show ?thesis by (subst hex_nat.simps) simp
  qed
qed

lemma length_hex_nat: "0 < k \<Longrightarrow> n < 16 ^ k \<Longrightarrow> length (hex_nat n) \<le> k"
proof (induction n arbitrary: k rule: hex_nat.induct)
  case (1 n)
  show ?case
  proof (cases "n < 16")
    case True
    then show ?thesis using "1.prems" by (subst hex_nat.simps) simp
  next
    case False
    with "1.prems" obtain j where k: "k = Suc j" by (cases k) auto
    with False "1.prems" have "0 < j" by (cases j) auto
    moreover from k "1.prems" have "n div 16 < 16 ^ j"
      by (simp add: less_mult_imp_div_less mult.commute)
    ultimately have "length (hex_nat (n div 16)) \<le> j" using "1.IH"[OF False] by blast
    then show ?thesis using False k by (subst hex_nat.simps) simp
  qed
qed

lemma length_format_032x: "n < 16 ^ 32 \<Longrightarrow> length (format_032x n) = 32"
  using length_hex_nat[of 32 n] by (simp add: format_032x_def Let_def)

lemma set_format_032x: "set (format_032x n) \<subseteq> set ''0123456789abcdef''"
  using set_hex_nat[of n] by (auto simp: format_032x_def Let_def)

lemma unat_128_bound: "unat (w :: 128 word) < 16 ^ 32"
  using unsigned_less[of w, where ?'a = nat] by simp

lemma get_task_id_hex: "set (get_task_id r) \<subseteq> set ''0123456789abcdef''"
  unfolding get_task_id_def by (rule set_format_032x)

lemma get_task_id_no_dash: "CHR ''-'' \<notin> set (get_task_id r)"
proof
  assume "CHR ''-'' \<in> set (get_task_id r)"
  with get_task_id_hex[of r] have "CHR ''-'' \<in> set ''0123456789abcdef''" by blast
  then show False by simp
qed

section \<open>Claims about decoding\<close>

text \<open>
  C3. For every register value that is a string with exactly one component (no
  delimiter), \<open>bootstrap_state\<close> returns the finished view: \<open>bootstrap\<close> is true,
  \<open>state\<close> is \<open>finished\<close> and \<open>task_id\<close> is the whole value.
\<close>

theorem bootstrap_state_one_component:
  assumes "get_fresh s ''BOOTSTRAP'' = PStr b"
    and "length (split_py CHR ''-'' b) = 1"
  shows "bootstrap_state s =
    Inr (Some \<lparr>bootstrap = True, state = Some ''finished'', task_id = Some b\<rparr>)"
  using assms by (rule decode_one)

theorem bootstrap_state_one_component_witness:
  "bootstrap_state (Map.empty(''BOOTSTRAP'' \<mapsto> PStr ''abc123'')) =
     Inr (Some \<lparr>bootstrap = True, state = Some ''finished'', task_id = Some ''abc123''\<rparr>)"
  using bootstrap_state_one_component
    [of "Map.empty(''BOOTSTRAP'' \<mapsto> PStr ''abc123'')" "''abc123''"]
  by (simp add: get_fresh_def)

text \<open>
  C4. For every register value with exactly two components \<open>p\<close> and \<open>t\<close>,
  \<open>bootstrap_state\<close> returns the intermediate view: \<open>bootstrap\<close> is false, \<open>state\<close> is
  the first component and \<open>task_id\<close> the second.
\<close>

theorem bootstrap_state_two_components:
  assumes "get_fresh s ''BOOTSTRAP'' = PStr b"
    and "split_py CHR ''-'' b = [p, t]"
  shows "bootstrap_state s =
    Inr (Some \<lparr>bootstrap = False, state = Some p, task_id = Some t\<rparr>)"
  using assms by (rule decode_two)

theorem bootstrap_state_two_components_witness:
  "bootstrap_state (Map.empty(''BOOTSTRAP'' \<mapsto> PStr ''signing-abc123'')) =
     Inr (Some \<lparr>bootstrap = False, state = Some ''signing'', task_id = Some ''abc123''\<rparr>)"
  using bootstrap_state_two_components
    [of "Map.empty(''BOOTSTRAP'' \<mapsto> PStr ''signing-abc123'')" "''signing-abc123''"
        "''signing''" "''abc123''"]
  by (simp add: get_fresh_def)

text \<open>
  C5. Whatever the store held before, \<open>release_bootstrap_lock\<close> followed by
  \<open>bootstrap_state\<close> yields \<open>bootstrap\<close> false, \<open>state\<close> null and \<open>task_id\<close> null.
\<close>

theorem release_then_bootstrap_state:
  "bootstrap_state (release_bootstrap_lock s) =
     Inr (Some \<lparr>bootstrap = False, state = None, task_id = None\<rparr>)"
  by (simp add: release_bootstrap_lock_eq decode_absent get_fresh_upd)

text \<open>
  C2. A register value with more than two components: at \<open>pre-ab-cd\<close> the function
  runs past its last branch and returns Python's \<open>None\<close>, not the view with
  \<open>bootstrap\<close> false, \<open>state\<close> null and \<open>task_id\<close> null.
\<close>

theorem bootstrap_state_three_components:
  "bootstrap_state (Map.empty(''BOOTSTRAP'' \<mapsto> PStr ''pre-ab-cd'')) = Inr None"
  by (simp add: bootstrap_state_def get_fresh_def reload_def)

text \<open>
  C1. Round trip over the three encoding shapes: when the register holds the encoding
  of a valid record, \<open>bootstrap_state\<close> returns the view of that record (for the absent
  record the view with \<open>bootstrap\<close> false and both fields null); and after
  \<open>pre_lock_bootstrap t\<close> it returns \<open>state = pre\<close> and \<open>task_id = t\<close>.
\<close>

theorem encode_decode_roundtrip:
  assumes "spec_valid r"
  shows "(get_fresh s ''BOOTSTRAP'' = spec_encode r \<longrightarrow>
            bootstrap_state s = Inr (Some (spec_view r)))
       \<and> (r = InProgress ''pre'' t \<longrightarrow>
            bootstrap_state (pre_lock_bootstrap t s') = Inr (Some (spec_view r)))"
proof (cases r)
  case Absent
  then show ?thesis by (simp add: decode_absent)
next
  case (InProgress phase tid)
  with assms have sp: "split_py CHR ''-'' (phase @ CHR ''-'' # tid) = [phase, tid]"
    by (simp add: split_py_two)
  have a: "get_fresh s ''BOOTSTRAP'' = PStr (phase @ CHR ''-'' # tid) \<Longrightarrow>
      bootstrap_state s =
        Inr (Some \<lparr>bootstrap = False, state = Some phase, task_id = Some tid\<rparr>)"
    by (rule decode_two[OF _ sp])
  have b: "phase = ''pre'' \<Longrightarrow> tid = t \<Longrightarrow>
      bootstrap_state (pre_lock_bootstrap t s') =
        Inr (Some \<lparr>bootstrap = False, state = Some phase, task_id = Some tid\<rparr>)"
  proof -
    assume e: "phase = ''pre''" "tid = t"
    have "get_fresh (pre_lock_bootstrap t s') ''BOOTSTRAP'' = PStr (phase @ CHR ''-'' # tid)"
      using e by (simp add: pre_lock_bootstrap_eq get_fresh_upd)
    then show ?thesis using sp by (rule decode_two)
  qed
  from InProgress a b show ?thesis by simp
next
  case (Finished tid)
  with assms have "length (split_py CHR ''-'' tid) = 1"
    by (simp add: split_py_no_sep)
  then have "get_fresh s ''BOOTSTRAP'' = PStr tid \<Longrightarrow>
      bootstrap_state s =
        Inr (Some \<lparr>bootstrap = True, state = Some ''finished'', task_id = Some tid\<rparr>)"
    by (simp add: decode_one)
  with Finished show ?thesis by simp
qed

theorem encode_decode_roundtrip_witness:
  "bootstrap_state (Map.empty(''BOOTSTRAP'' \<mapsto> PStr ''pre-0a1b'')) =
     Inr (Some \<lparr>bootstrap = False, state = Some ''pre'', task_id = Some ''0a1b''\<rparr>)
   \<and> bootstrap_state (pre_lock_bootstrap ''0a1b'' Map.empty) =
     Inr (Some \<lparr>bootstrap = False, state = Some ''pre'', task_id = Some ''0a1b''\<rparr>)"
  using encode_decode_roundtrip
    [of "InProgress ''pre'' ''0a1b''" "Map.empty(''BOOTSTRAP'' \<mapsto> PStr ''pre-0a1b'')"
        "''0a1b''" Map.empty]
  by (simp add: get_fresh_def)

text \<open>
  C9. In every view that \<open>bootstrap_state\<close> returns, \<open>state\<close> is null exactly when
  \<open>task_id\<close> is null, and when \<open>bootstrap\<close> is true, \<open>state\<close> is \<open>finished\<close> and
  \<open>task_id\<close> is the whole register value.
\<close>

theorem bootstrap_state_invariant:
  assumes "bootstrap_state s = Inr (Some v)"
  shows "(state v = None \<longleftrightarrow> task_id v = None)
       \<and> (bootstrap v \<longrightarrow>
            state v = Some ''finished''
            \<and> (\<exists>b. get_fresh s ''BOOTSTRAP'' = PStr b \<and> task_id v = Some b))"
  using assms
  by (auto simp: bootstrap_state_def reload_def Let_def split: pyval.splits if_splits)

theorem bootstrap_state_invariant_witness:
  "bootstrap_state (Map.empty(''BOOTSTRAP'' \<mapsto> PStr ''0a1b2c'')) =
     Inr (Some \<lparr>bootstrap = True, state = Some ''finished'', task_id = Some ''0a1b2c''\<rparr>)
   \<and> state \<lparr>bootstrap = True, state = Some ''finished'', task_id = Some ''0a1b2c''\<rparr> =
       Some ''finished''
   \<and> get_fresh (Map.empty(''BOOTSTRAP'' \<mapsto> PStr ''0a1b2c'')) ''BOOTSTRAP'' = PStr ''0a1b2c''
   \<and> task_id \<lparr>bootstrap = True, state = Some ''finished'', task_id = Some ''0a1b2c''\<rparr> =
       Some ''0a1b2c''"
proof -
  have h: "bootstrap_state (Map.empty(''BOOTSTRAP'' \<mapsto> PStr ''0a1b2c'')) =
     Inr (Some \<lparr>bootstrap = True, state = Some ''finished'', task_id = Some ''0a1b2c''\<rparr>)"
    by (simp add: bootstrap_state_def reload_def get_fresh_def)
  show ?thesis using h bootstrap_state_invariant [OF h] by simp
qed

text \<open>
  C6, as the specification states it, fails: with the one-component register value
  \<open>c0ffee\<close> the returned view has \<open>bootstrap\<close> true and \<open>state\<close> equal to
  \<open>finished\<close>, not null.
\<close>

theorem state_null_when_bootstrapped_counterexample:
  "bootstrap_state (Map.empty(''BOOTSTRAP'' \<mapsto> PStr ''c0ffee'')) =
     Inr (Some \<lparr>bootstrap = True, state = Some ''finished'', task_id = Some ''c0ffee''\<rparr>)
   \<and> Some ''finished'' \<noteq> (None :: string option)"
  by (simp add: bootstrap_state_def get_fresh_def reload_def)

text \<open>
  C6, amended. In every view that \<open>bootstrap_state\<close> returns, \<open>state\<close> is \<open>finished\<close>
  whenever \<open>bootstrap\<close> is true, null when the register is absent, and otherwise the
  first component of the register value (the phase name).
\<close>

theorem bootstrap_state_state_field:
  assumes "bootstrap_state s = Inr (Some v)"
  shows "(bootstrap v \<longrightarrow> state v = Some ''finished'')
       \<and> (get_fresh s ''BOOTSTRAP'' = PNone \<longrightarrow> state v = None)
       \<and> (\<not> bootstrap v \<and> get_fresh s ''BOOTSTRAP'' \<noteq> PNone \<longrightarrow>
            (\<exists>b. get_fresh s ''BOOTSTRAP'' = PStr b
                 \<and> state v = Some (split_py CHR ''-'' b ! 0)))"
  using assms
  by (auto simp: bootstrap_state_def reload_def Let_def split: pyval.splits if_splits)

theorem bootstrap_state_state_field_witness:
  "bootstrap_state (Map.empty(''BOOTSTRAP'' \<mapsto> PStr ''signing-0a1b'')) =
     Inr (Some \<lparr>bootstrap = False, state = Some ''signing'', task_id = Some ''0a1b''\<rparr>)
   \<and> state \<lparr>bootstrap = False, state = Some ''signing'', task_id = Some ''0a1b''\<rparr> =
       Some (split_py CHR ''-'' ''signing-0a1b'' ! 0)"
proof -
  have h: "bootstrap_state (Map.empty(''BOOTSTRAP'' \<mapsto> PStr ''signing-0a1b'')) =
     Inr (Some \<lparr>bootstrap = False, state = Some ''signing'', task_id = Some ''0a1b''\<rparr>)"
    by (simp add: bootstrap_state_def reload_def get_fresh_def)
  show ?thesis using h bootstrap_state_state_field [OF h] by (simp add: get_fresh_def)
qed

section \<open>Claims about the writers\<close>



text \<open>
  C10. What the subsystem writes decodes unambiguously: \<open>get_task_id\<close> returns 32
  hexadecimal characters, none of them the delimiter; so \<open>pre_lock_bootstrap\<close> of it
  stores a value that splits into exactly the two components \<open>pre\<close> and the id, and
  \<open>release_bootstrap_lock\<close> stores \<open>None\<close>.
\<close>

theorem written_values_decode:
  "length (get_task_id r) = 32
   \<and> set (get_task_id r) \<subseteq> set ''0123456789abcdef''
   \<and> CHR ''-'' \<notin> set (get_task_id r)
   \<and> get_fresh (pre_lock_bootstrap (get_task_id r) s) ''BOOTSTRAP'' =
       PStr (''pre-'' @ get_task_id r)
   \<and> split_py CHR ''-'' (''pre-'' @ get_task_id r) = [''pre'', get_task_id r]
   \<and> length (split_py CHR ''-'' (''pre-'' @ get_task_id r)) = 2
   \<and> get_fresh (release_bootstrap_lock s) ''BOOTSTRAP'' = PNone"
proof -
  have len: "length (get_task_id r) = 32"
    unfolding get_task_id_def by (rule length_format_032x) (rule unat_128_bound)
  have nd: "CHR ''-'' \<notin> set (get_task_id r)" by (rule get_task_id_no_dash)
  have "CHR ''-'' \<notin> set ''pre''" by simp
  then have "split_py CHR ''-'' (''pre'' @ CHR ''-'' # get_task_id r) = [''pre'', get_task_id r]"
    using nd by (rule split_py_two)
  then have sp: "split_py CHR ''-'' (''pre-'' @ get_task_id r) = [''pre'', get_task_id r]"
    by simp
  have pre: "get_fresh (pre_lock_bootstrap (get_task_id r) s) ''BOOTSTRAP'' =
      PStr (''pre-'' @ get_task_id r)"
    by (simp only: pre_lock_bootstrap_eq get_fresh_upd)
  have rel: "get_fresh (release_bootstrap_lock s) ''BOOTSTRAP'' = PNone"
    by (simp only: release_bootstrap_lock_eq get_fresh_upd)
  from len get_task_id_hex[of r] nd pre sp rel show ?thesis by simp
qed

section \<open>Claims about the status query\<close>

text \<open>
  C8. Called with no task id, the status query does not raise: for every status store of
  the execution engine it returns \<open>PENDING\<close> with no auxiliary result.
\<close>

theorem get_without_task_id:
  "get queryStatus translate \<lparr>query_task_id = None\<rparr> =
     Inr \<lparr>task_state = PENDING, result = None\<rparr>"
  by (simp add: get_def tasks_get_def)

end
